theory Spec2Isabelle
  imports Complex_Main "HOL-Library.Word"
begin

unbundle bit_operations_syntax

section \<open>Voxel::DepthCamera (src/Voxel/DepthCamera.cpp)\<close>

text \<open>
  A shallow embedding of the member functions of \<^verbatim>\<open>Voxel::DepthCamera\<close> defined in
  \<^verbatim>\<open>DepthCamera.cpp\<close>. A member function that changes the object takes the object and
  returns it updated; what a function would do beyond returning (a null handle
  dereferenced, an empty callback called, a vector read out of range, an \<^verbatim>\<open>int\<close>
  computed out of its range) is a value of type \<open>fault\<close>. Log output is left out everywhere: it changes no state. Member names
  lose their leading underscore.
\<close>

subsection \<open>Data\<close>

datatype fault = NullDereference | BadFunctionCall | OutOfRange | SignedOverflow

text \<open>
  Modelled from the spec: the enumeration \<^verbatim>\<open>FrameCallBackType\<close> is declared in
  \<^verbatim>\<open>DepthCamera.h\<close>, which is not among the sources. Its enumerators are the five names
  \<^verbatim>\<open>DepthCamera.cpp\<close> uses: the four stages of the spec's callback table, in pipeline
  order, and \<^verbatim>\<open>CALLBACK_TYPE_COUNT\<close> closing the list. \<open>enumerator\<close> gives each its
  integer value, counted from 0 as \<^verbatim>\<open>DepthCamera.cpp\<close> needs for \<^verbatim>\<open>_callback[type]\<close>,
  \<^verbatim>\<open>type < CALLBACK_TYPE_COUNT\<close> and \<^verbatim>\<open>1 << type\<close>.
\<close>

datatype FrameCallBackType =
    CALLBACK_RAW_FRAME_UNPROCESSED
  | CALLBACK_RAW_FRAME_PROCESSED
  | CALLBACK_DEPTH_FRAME
  | CALLBACK_XYZI_POINT_CLOUD_FRAME
  | CALLBACK_TYPE_COUNT

fun enumerator :: "FrameCallBackType \<Rightarrow> nat" where
  "enumerator CALLBACK_RAW_FRAME_UNPROCESSED = 0"
| "enumerator CALLBACK_RAW_FRAME_PROCESSED = 1"
| "enumerator CALLBACK_DEPTH_FRAME = 2"
| "enumerator CALLBACK_XYZI_POINT_CLOUD_FRAME = 3"
| "enumerator CALLBACK_TYPE_COUNT = 4"

text \<open>
  Frames. \<^verbatim>\<open>Frame\<close> is the base class (identifier and timestamp); the raw, depth and
  point-cloud frames extend it. The fields \<^verbatim>\<open>id\<close> and \<^verbatim>\<open>size\<close> carry a suffix, the
  coordinates of a point too. A handle (\<^verbatim>\<open>RawFramePtr\<close> and the like) is an option:
  \<open>None\<close> is the null handle.

  The float arithmetic of the projection is rendered over the reals: rounding is not
  part of the model. A coordinate is an option, \<open>None\<close> standing for NaN, which the
  projection produces at the pixel with \<^verbatim>\<open>x1 == 0\<close> and \<^verbatim>\<open>y1 == 0\<close>.

  Modelled from the spec: the integer type of \<^verbatim>\<open>size.width\<close> and \<^verbatim>\<open>size.height\<close> is declared
  in a header that is not among the sources; the spec speaks of a width \<open>w\<close> and a
  height \<open>h\<close>, and the dimensions are naturals here, as are the products
  \<^verbatim>\<open>width*height\<close> (line 136), \<^verbatim>\<open>w*w\<close> and \<^verbatim>\<open>h*h\<close> (line 147) computed in that type. The
  variables \<^verbatim>\<open>DepthCamera.cpp\<close> itself declares with \<^verbatim>\<open>auto ... = 0\<close> (\<^verbatim>\<open>index\<close>, \<^verbatim>\<open>x\<close>, \<^verbatim>\<open>y\<close>,
  \<^verbatim>\<open>x1\<close>, \<^verbatim>\<open>y1\<close>) are \<^verbatim>\<open>int\<close>: 32 bits, two's complement. An \<^verbatim>\<open>int\<close> operation whose
  result is out of range has undefined behaviour in C++ and is the fault
  \<open>SignedOverflow\<close> here; the conversion of a value to \<^verbatim>\<open>int\<close> in an assignment is
  modular.
\<close>

record Frame =
  id_f :: nat
  timestamp :: nat

record RawFrame = Frame +
  data :: "nat list"

record SizeType =
  width :: nat
  height :: nat

record DepthFrame = Frame +
  depth :: "real list"
  amplitude :: "real list"
  size_f :: SizeType

record IntensityPoint =
  x_p :: "real option"
  y_p :: "real option"
  z_p :: "real option"
  i_p :: real

record XYZIPointCloudFrame = Frame +
  points :: "IntensityPoint list"

datatype PointCloudFrame = XYZI XYZIPointCloudFrame | OtherPointCloudFrame Frame

type_synonym RawFramePtr = "RawFrame option"
type_synonym DepthFramePtr = "DepthFrame option"
type_synonym PointCloudFramePtr = "PointCloudFrame option"

datatype FrameRef =
    RawFrameRef RawFrame
  | DepthFrameRef DepthFrame
  | PointCloudFrameRef PointCloudFrame

text \<open>
  A callback slot (\<^verbatim>\<open>CallbackType\<close>, a function object) is empty or holds a callable,
  named by a number; what a callback does when called is not part of the model. The
  table \<^verbatim>\<open>_callback\<close> is the list of its \<^verbatim>\<open>CALLBACK_TYPE_COUNT\<close> slots. A parameter handle
  is taken non-null, as \<^verbatim>\<open>p->name()\<close> needs.
\<close>

type_synonym CallbackType = "nat option"

record Parameter =
  name :: string
  handle :: nat

record DepthCamera =
  id_cam :: string
  parameters :: "string \<rightharpoonup> Parameter"
  callback :: "CallbackType list"
  callBackTypesRegistered :: "32 word"
  running :: bool
  threadActive :: bool
  captureThread :: bool
  programmer :: "nat option"
  streamer :: "nat option"

text \<open>
  The operations the class leaves to the concrete camera (pure virtual) and to the
  programmer capability: each is a function from what the call reads to what it
  returns and writes through its reference argument.
\<close>

record Driver =
  captureRawUnprocessedFrame :: "RawFramePtr \<Rightarrow> bool \<times> RawFramePtr"
  processRawFrame :: "RawFramePtr \<Rightarrow> RawFramePtr \<Rightarrow> bool \<times> RawFramePtr"
  convertToDepthFrame :: "RawFramePtr \<Rightarrow> DepthFramePtr \<Rightarrow> bool \<times> DepthFramePtr"
  getFieldOfView :: "real \<Rightarrow> bool \<times> real"
  start_virtual :: bool
  programmer_reset :: "nat \<Rightarrow> bool"

text \<open>What the three buffer pools hand out on \<^verbatim>\<open>get()\<close> in one pass of the loop.\<close>

record Buffers =
  rawFrameBuffers :: RawFramePtr
  depthFrameBuffers :: DepthFramePtr
  pointCloudBuffers :: PointCloudFramePtr

text \<open>What one pass of the capture loop does, in order.\<close>

datatype event =
    Call_captureRawUnprocessedFrame
  | Call_processRawFrame
  | Call_convertToDepthFrame
  | Call_convertToPointCloudFrame
  | Invoke nat string FrameRef FrameCallBackType
  | Raise fault

subsection \<open>Parameters and the callback table (lines 13-63)\<close>

text \<open>
  \<^verbatim>\<open>_addParameters\<close> (lines 13-30): the loop over the batch, on the parameter map.
  \<^verbatim>\<open>reserve\<close> changes no entry of the map and is left out.
\<close>

fun addParameters_loop ::
  "Parameter list \<Rightarrow> (string \<rightharpoonup> Parameter) \<Rightarrow> bool \<times> (string \<rightharpoonup> Parameter)" where
  "addParameters_loop [] m = (True, m)"
| "addParameters_loop (p # ps) m =
     (if m (name p) = None then addParameters_loop ps (m(name p \<mapsto> p)) else (False, m))"

definition addParameters :: "Parameter list \<Rightarrow> DepthCamera \<Rightarrow> bool \<times> DepthCamera" where
  "addParameters params cam =
     (case addParameters_loop params (parameters cam) of
        (ok, m) \<Rightarrow> (ok, cam\<lparr>parameters := m\<rparr>))"

text \<open>
  \<^verbatim>\<open>clearCallback\<close> (lines 32-36) empties every slot and writes nothing else. The
  source has no return statement, so the model returns the object only.
\<close>

definition clearCallback :: "DepthCamera \<Rightarrow> DepthCamera" where
  "clearCallback cam =
     cam\<lparr>callback := fold (\<lambda>i cb. cb[i := None]) [0..<enumerator CALLBACK_TYPE_COUNT] (callback cam)\<rparr>"

text \<open>\<^verbatim>\<open>registerCallback\<close> (lines 38-51).\<close>

definition registerCallback ::
  "FrameCallBackType \<Rightarrow> CallbackType \<Rightarrow> DepthCamera \<Rightarrow> bool \<times> DepthCamera" where
  "registerCallback type f cam =
     (if enumerator type < enumerator CALLBACK_TYPE_COUNT then
        (True, cam\<lparr>callBackTypesRegistered :=
                       callBackTypesRegistered cam OR push_bit (enumerator type) 1,
                    callback := (callback cam)[enumerator type := f]\<rparr>)
      else (False, cam))"

text \<open>
  \<^verbatim>\<open>_callbackAndContinue\<close> (lines 53-63). The condition is
  \<^verbatim>\<open>(callBackTypesToBeCalled | type) and _callback[type]\<close>: the slot is read only when
  the left operand is non-zero. The mask is then and-ed with \<^verbatim>\<open>~type\<close>. The result
  holds the callback invocations, the mask as left in the reference argument and the
  value returned.
\<close>

definition callbackAndContinue ::
  "DepthCamera \<Rightarrow> 32 word \<Rightarrow> FrameCallBackType \<Rightarrow> FrameRef
     \<Rightarrow> fault + (event list \<times> 32 word \<times> bool)" where
  "callbackAndContinue cam callBackTypesToBeCalled type frame =
     (let m = callBackTypesToBeCalled AND NOT (of_nat (enumerator type)) in
      if (callBackTypesToBeCalled OR of_nat (enumerator type)) = 0 then Inr ([], m, m \<noteq> 0)
      else if length (callback cam) \<le> enumerator type then Inl OutOfRange
      else
        (case callback cam ! enumerator type of
           None \<Rightarrow> Inr ([], m, m \<noteq> 0)
         | Some c \<Rightarrow> Inr ([Invoke c (id_cam cam) frame type], m, m \<noteq> 0)))"

subsection \<open>The conversion to a point cloud (lines 118-187)\<close>

text \<open>\<^verbatim>\<open>points.resize(n)\<close>: keeps the first \<open>n\<close> points, fills up with zero points.\<close>

definition zeroPoint :: IntensityPoint where
  "zeroPoint = \<lparr>x_p = Some 0, y_p = Some 0, z_p = Some 0, i_p = 0\<rparr>"

definition resize :: "nat \<Rightarrow> IntensityPoint list \<Rightarrow> IntensityPoint list" where
  "resize n ps = take n ps @ replicate (n - length ps) zeroPoint"

text \<open>
  \<^verbatim>\<open>phi = atan(y1*1.0/x1); if(x1 < 0) phi = M_PI + phi;\<close> (lines 169-172). At
  \<^verbatim>\<open>x1 == 0\<close> the quotient is an infinity, whose arc tangent is a right angle, or NaN.
\<close>

definition phi_of :: "int \<Rightarrow> int \<Rightarrow> real option" where
  "phi_of x1 y1 =
     (if x1 = 0 then
        (if y1 = 0 then None else if 0 < y1 then Some (pi / 2) else Some (- (pi / 2)))
      else if x1 < 0 then Some (pi + arctan (real_of_int y1 / real_of_int x1))
      else Some (arctan (real_of_int y1 / real_of_int x1)))"

text \<open>The range of \<^verbatim>\<open>int\<close>, and the conversion of an integer value to \<^verbatim>\<open>int\<close>.\<close>

definition INT_MAX :: int where
  "INT_MAX = 2147483647"

definition INT_MIN :: int where
  "INT_MIN = - 2147483648"

definition in_int :: "int \<Rightarrow> bool" where
  "in_int n = (INT_MIN \<le> n \<and> n \<le> INT_MAX)"

definition to_int :: "int \<Rightarrow> int" where
  "to_int n = (n - INT_MIN) mod 4294967296 + INT_MIN"

text \<open>
  Lines 166-181 of the body of the inner loop: the point written into
  \<^verbatim>\<open>f->points[index]\<close> for the pixel \<open>(x, y)\<close>. \<^verbatim>\<open>x1\<close> and \<^verbatim>\<open>y1\<close> are \<^verbatim>\<open>int\<close>, so
  \<^verbatim>\<open>x1*x1 + y1*y1\<close> (line 174) is computed in \<^verbatim>\<open>int\<close>. The vectors \<^verbatim>\<open>depth\<close> and
  \<^verbatim>\<open>amplitude\<close> are read at \<^verbatim>\<open>index\<close> unchecked (lines 176-177).
\<close>

definition project ::
  "DepthFrame \<Rightarrow> real \<Rightarrow> nat \<Rightarrow> nat \<Rightarrow> nat \<Rightarrow> IntensityPoint \<Rightarrow> fault + IntensityPoint" where
  "project d focalLength y x index p =
     (let x1 = to_int (int x - int (width (size_f d) div 2));
          y1 = to_int (int y - int (height (size_f d) div 2))
      in if in_int (x1 * x1) \<and> in_int (y1 * y1) \<and> in_int (x1 * x1 + y1 * y1) then
           if index < length (depth d) \<and> index < length (amplitude d) then
             (let phi = phi_of x1 y1;
                  theta = arctan (sqrt (real_of_int (x1 * x1 + y1 * y1)) / focalLength);
                  r = depth d ! index
              in Inr (p\<lparr>i_p := amplitude d ! index,
                        x_p := map_option (\<lambda>a. r * sin theta * cos a) phi,
                        y_p := map_option (\<lambda>a. r * sin theta * sin a) phi,
                        z_p := Some (r * cos theta)\<rparr>))
           else Inl OutOfRange
         else Inl SignedOverflow)"

text \<open>
  One turn of the inner loop on the points and \<^verbatim>\<open>index\<close>: the body, which takes
  \<^verbatim>\<open>f->points[index]\<close> unchecked (line 164), then \<^verbatim>\<open>x++, index++\<close> (line 162), both
  on \<^verbatim>\<open>int\<close>.
\<close>

definition pixel ::
  "DepthFrame \<Rightarrow> real \<Rightarrow> nat \<Rightarrow> nat \<Rightarrow> IntensityPoint list \<times> nat
     \<Rightarrow> fault + (IntensityPoint list \<times> nat)" where
  "pixel d focalLength y x st =
     (case st of (pts, index) \<Rightarrow>
        if index < length pts then
          (case project d focalLength y x index (pts ! index) of
             Inl e \<Rightarrow> Inl e
           | Inr p \<Rightarrow>
               if in_int (int x + 1) \<and> in_int (int index + 1)
               then Inr (pts[index := p], index + 1)
               else Inl SignedOverflow)
        else Inl OutOfRange)"

text \<open>
  \<^verbatim>\<open>for(auto x = 0; x < w; x++, index++)\<close> and \<^verbatim>\<open>for(auto y = 0; y < h; y++)\<close>. The
  lists hold the values the counter takes; \<^verbatim>\<open>y++\<close> is on \<^verbatim>\<open>int\<close>.
\<close>

primrec loop_x ::
  "DepthFrame \<Rightarrow> real \<Rightarrow> nat \<Rightarrow> nat list \<Rightarrow> IntensityPoint list \<times> nat
     \<Rightarrow> fault + (IntensityPoint list \<times> nat)" where
  "loop_x d focalLength y [] st = Inr st"
| "loop_x d focalLength y (x # xs) st =
     (case pixel d focalLength y x st of
        Inl e \<Rightarrow> Inl e
      | Inr st' \<Rightarrow> loop_x d focalLength y xs st')"

primrec loop_y ::
  "DepthFrame \<Rightarrow> real \<Rightarrow> nat list \<Rightarrow> IntensityPoint list \<times> nat
     \<Rightarrow> fault + (IntensityPoint list \<times> nat)" where
  "loop_y d focalLength [] st = Inr st"
| "loop_y d focalLength (y # ys) st =
     (case loop_x d focalLength y [0..<width (size_f d)] st of
        Inl e \<Rightarrow> Inl e
      | Inr st' \<Rightarrow>
          if in_int (int y + 1) then loop_y d focalLength ys st' else Inl SignedOverflow)"

text \<open>
  \<^verbatim>\<open>dynamic_cast<XYZIPointCloudFrame *>(pointCloudFrame.get())\<close> and the frame that
  \<^verbatim>\<open>new XYZIPointCloudFrame()\<close> makes.
\<close>

fun dynamic_cast_XYZI :: "PointCloudFramePtr \<Rightarrow> XYZIPointCloudFrame option" where
  "dynamic_cast_XYZI (Some (XYZI f)) = Some f"
| "dynamic_cast_XYZI _ = None"

definition new_XYZIPointCloudFrame :: XYZIPointCloudFrame where
  "new_XYZIPointCloudFrame = \<lparr>id_f = 0, timestamp = 0, points = []\<rparr>"

text \<open>
  \<^verbatim>\<open>_convertToPointCloudFrame\<close> (lines 118-187). The first argument is the camera's
  \<^verbatim>\<open>getFieldOfView\<close>, called on \<^verbatim>\<open>thetaMax = 0.0f\<close>. The result holds the value returned
  and the handle as left in the reference argument.
\<close>

definition convertToPointCloudFrame ::
  "(real \<Rightarrow> bool \<times> real) \<Rightarrow> DepthFramePtr \<Rightarrow> PointCloudFramePtr
     \<Rightarrow> fault + (bool \<times> PointCloudFramePtr)" where
  "convertToPointCloudFrame fov depthFrame pointCloudFrame =
     (case depthFrame of
        None \<Rightarrow> Inr (False, pointCloudFrame)
      | Some d \<Rightarrow>
          (let f0 = (case dynamic_cast_XYZI pointCloudFrame of
                       None \<Rightarrow> new_XYZIPointCloudFrame
                     | Some f \<Rightarrow> f);
               f1 = f0\<lparr>id_f := id_f d, timestamp := timestamp d,
                       points := resize (width (size_f d) * height (size_f d)) (points f0)\<rparr>;
               w = width (size_f d);
               h = height (size_f d);
               scaleMax = sqrt (real (w * w) / 4 + real (h * h) / 4);
               got = fov 0
           in if \<not> fst got then Inr (False, Some (XYZI f1))
              else if snd got = 0 then Inr (False, Some (XYZI f1))
              else
                (let focalLength = scaleMax / tan (snd got) in
                 case loop_y d focalLength [0..<h] (points f1, 0) of
                   Inl e \<Rightarrow> Inl e
                 | Inr (pts, index) \<Rightarrow> Inr (True, Some (XYZI (f1\<lparr>points := pts\<rparr>))))))"

subsection \<open>One pass of the capture loop (lines 70-109)\<close>

text \<open>
  Modelled from the spec: the member \<^verbatim>\<open>_callback\<close> is declared in \<^verbatim>\<open>DepthCamera.h\<close>, which
  is not among the sources. The spec makes it a fixed-size table of per-stage slots,
  and \<^verbatim>\<open>DepthCamera.cpp\<close> indexes it up to \<^verbatim>\<open>CALLBACK_TYPE_COUNT\<close>: an array member. Used
  as a condition, as in \<^verbatim>\<open>if(!_callback)\<close>, an array stands for the address of its
  first slot, which is not null whatever the slots hold.
\<close>

definition array_as_condition :: "CallbackType list \<Rightarrow> bool" where
  "array_as_condition cb = True"

text \<open>
  The full path, from its last stage to its first. Each function is the rest of the
  pass from one call on, and gives the events of that rest.
\<close>

definition from_convertToPointCloudFrame ::
  "Driver \<Rightarrow> Buffers \<Rightarrow> DepthCamera \<Rightarrow> 32 word \<Rightarrow> DepthFramePtr \<Rightarrow> event list" where
  "from_convertToPointCloudFrame drv bufs cam callBackTypesToBeCalled d =
     Call_convertToPointCloudFrame #
     (case convertToPointCloudFrame (getFieldOfView drv) d (pointCloudBuffers bufs) of
        Inl e \<Rightarrow> [Raise e]
      | Inr (ok, p) \<Rightarrow>
          if \<not> ok then []
          else
            (case p of
               None \<Rightarrow> [Raise NullDereference]
             | Some pf \<Rightarrow>
                 (case callbackAndContinue cam callBackTypesToBeCalled
                         CALLBACK_XYZI_POINT_CLOUD_FRAME (PointCloudFrameRef pf) of
                    Inl e \<Rightarrow> [Raise e]
                  | Inr (evs, m, continue) \<Rightarrow> evs)))"

definition from_convertToDepthFrame ::
  "Driver \<Rightarrow> Buffers \<Rightarrow> DepthCamera \<Rightarrow> 32 word \<Rightarrow> RawFramePtr \<Rightarrow> event list" where
  "from_convertToDepthFrame drv bufs cam callBackTypesToBeCalled f =
     Call_convertToDepthFrame #
     (case convertToDepthFrame drv f (depthFrameBuffers bufs) of
        (ok, d) \<Rightarrow>
          if \<not> ok then []
          else
            (case d of
               None \<Rightarrow> [Raise NullDereference]
             | Some df \<Rightarrow>
                 (case callbackAndContinue cam callBackTypesToBeCalled
                         CALLBACK_DEPTH_FRAME (DepthFrameRef df) of
                    Inl e \<Rightarrow> [Raise e]
                  | Inr (evs, m, continue) \<Rightarrow>
                      if \<not> continue then evs
                      else evs @ from_convertToPointCloudFrame drv bufs cam m d)))"

definition from_processRawFrame ::
  "Driver \<Rightarrow> Buffers \<Rightarrow> DepthCamera \<Rightarrow> 32 word \<Rightarrow> RawFramePtr \<Rightarrow> event list" where
  "from_processRawFrame drv bufs cam callBackTypesToBeCalled f1 =
     Call_processRawFrame #
     (case processRawFrame drv f1 (rawFrameBuffers bufs) of
        (ok, f) \<Rightarrow>
          if \<not> ok then []
          else
            (case f of
               None \<Rightarrow> [Raise NullDereference]
             | Some rf \<Rightarrow>
                 (case callbackAndContinue cam callBackTypesToBeCalled
                         CALLBACK_RAW_FRAME_PROCESSED (RawFrameRef rf) of
                    Inl e \<Rightarrow> [Raise e]
                  | Inr (evs, m, continue) \<Rightarrow>
                      if \<not> continue then evs
                      else evs @ from_convertToDepthFrame drv bufs cam m f)))"

definition full_path :: "Driver \<Rightarrow> Buffers \<Rightarrow> DepthCamera \<Rightarrow> 32 word \<Rightarrow> event list" where
  "full_path drv bufs cam callBackTypesToBeCalled =
     Call_captureRawUnprocessedFrame #
     (case captureRawUnprocessedFrame drv None of
        (ok, f1) \<Rightarrow>
          if \<not> ok then []
          else
            (case f1 of
               None \<Rightarrow> [Raise NullDereference]
             | Some rf \<Rightarrow>
                 (case callbackAndContinue cam callBackTypesToBeCalled
                         CALLBACK_RAW_FRAME_UNPROCESSED (RawFrameRef rf) of
                    Inl e \<Rightarrow> [Raise e]
                  | Inr (evs, m, continue) \<Rightarrow>
                      if \<not> continue then evs
                      else evs @ from_processRawFrame drv bufs cam m f1)))"

text \<open>
  The fast path (lines 74-76). Its condition is
  \<^verbatim>\<open>_captureRawUnprocessedFrame(*f) and _callback\<close>: the right operand is the callback
  array itself, not a slot of it. The slot is then called; calling an empty slot
  raises.
\<close>

definition fast_path :: "Driver \<Rightarrow> Buffers \<Rightarrow> DepthCamera \<Rightarrow> event list" where
  "fast_path drv bufs cam =
     Call_captureRawUnprocessedFrame #
     (case captureRawUnprocessedFrame drv (rawFrameBuffers bufs) of
        (ok, f) \<Rightarrow>
          if \<not> ok then []
          else if \<not> array_as_condition (callback cam) then []
          else
            (case f of
               None \<Rightarrow> [Raise NullDereference]
             | Some rf \<Rightarrow>
                 if length (callback cam) \<le> enumerator CALLBACK_RAW_FRAME_UNPROCESSED
                 then [Raise OutOfRange]
                 else
                   (case callback cam ! enumerator CALLBACK_RAW_FRAME_UNPROCESSED of
                      None \<Rightarrow> [Raise BadFunctionCall]
                    | Some c \<Rightarrow>
                        [Invoke c (id_cam cam) (RawFrameRef rf) CALLBACK_RAW_FRAME_UNPROCESSED])))"

text \<open>
  The body of \<^verbatim>\<open>while(_running)\<close> in \<^verbatim>\<open>_captureLoop\<close> (lines 70-109). The second test of
  line 72 compares the mask with the enumerator \<^verbatim>\<open>CALLBACK_RAW_FRAME_UNPROCESSED\<close>.
\<close>

definition captureLoop_body :: "Driver \<Rightarrow> Buffers \<Rightarrow> DepthCamera \<Rightarrow> event list" where
  "captureLoop_body drv bufs cam =
     (let callBackTypesToBeCalled = callBackTypesRegistered cam in
      if callBackTypesRegistered cam = 0 then fast_path drv bufs cam
      else if callBackTypesRegistered cam = of_nat (enumerator CALLBACK_RAW_FRAME_UNPROCESSED)
      then fast_path drv bufs cam
      else full_path drv bufs cam callBackTypesToBeCalled)"

subsection \<open>The session (lines 190-250)\<close>

text \<open>
  \<^verbatim>\<open>start\<close> (lines 197-214). \<open>captureThread\<close> records that the capture thread has been
  made; the thread runs \<^verbatim>\<open>_captureThreadWrapper\<close>, whose first step is below.
\<close>

definition start :: "Driver \<Rightarrow> DepthCamera \<Rightarrow> bool \<times> DepthCamera" where
  "start drv cam =
     (if \<not> array_as_condition (callback cam) then (False, cam)
      else if \<not> start_virtual drv then (False, cam)
      else (True, cam\<lparr>running := True, captureThread := True\<rparr>))"

definition captureThreadWrapper_enter :: "DepthCamera \<Rightarrow> DepthCamera" where
  "captureThreadWrapper_enter cam = cam\<lparr>threadActive := True\<rparr>"

text \<open>\<^verbatim>\<open>stop\<close> (lines 216-220) and \<^verbatim>\<open>reset\<close> (lines 237-250).\<close>

definition stop :: "DepthCamera \<Rightarrow> bool \<times> DepthCamera" where
  "stop cam = (True, cam\<lparr>running := False\<rparr>)"

definition reset :: "Driver \<Rightarrow> DepthCamera \<Rightarrow> fault + (bool \<times> DepthCamera)" where
  "reset drv cam =
     (case stop cam of
        (ok, cam1) \<Rightarrow>
          if \<not> ok then Inr (False, cam1)
          else
            (case programmer cam1 of
               None \<Rightarrow> Inl NullDereference
             | Some p \<Rightarrow>
                 if \<not> programmer_reset drv p then Inr (False, cam1)
                 else Inr (True, cam1\<lparr>programmer := None, streamer := None\<rparr>)))"

subsection \<open>A camera, a driver and frames to run the functions on\<close>

text \<open>
  A camera as constructed (no parameter, no callback, not running), a concrete camera
  whose every operation succeeds, and the depth frame of the spec's end-to-end
  example: 2 by 2, all depths 1, amplitudes 10, 20, 30, 40.
\<close>

definition camera0 :: DepthCamera where
  "camera0 =
     \<lparr>id_cam = ''camera'', parameters = Map.empty, callback = replicate 4 None,
      callBackTypesRegistered = 0, running = False, threadActive = False,
      captureThread = False, programmer = Some 1, streamer = Some 2\<rparr>"

definition rawFrame0 :: RawFrame where
  "rawFrame0 = \<lparr>id_f = 5, timestamp = 99, data = []\<rparr>"

definition depthFrame0 :: DepthFrame where
  "depthFrame0 =
     \<lparr>id_f = 5, timestamp = 99, depth = [1, 1, 1, 1], amplitude = [10, 20, 30, 40],
      size_f = \<lparr>width = 2, height = 2\<rparr>\<rparr>"

definition driver0 :: Driver where
  "driver0 =
     \<lparr>captureRawUnprocessedFrame = (\<lambda>f. (True, Some rawFrame0)),
      processRawFrame = (\<lambda>f1 f. (True, Some rawFrame0)),
      convertToDepthFrame = (\<lambda>f d. (True, Some depthFrame0)),
      getFieldOfView = (\<lambda>thetaMax. (True, pi / 4)),
      start_virtual = True,
      programmer_reset = (\<lambda>p. True)\<rparr>"

definition buffers0 :: Buffers where
  "buffers0 = \<lparr>rawFrameBuffers = None, depthFrameBuffers = None, pointCloudBuffers = None\<rparr>"

definition parameterA :: Parameter where
  "parameterA = \<lparr>name = ''a'', handle = 1\<rparr>"

definition parameterB :: Parameter where
  "parameterB = \<lparr>name = ''b'', handle = 2\<rparr>"

definition parameterB0 :: Parameter where
  "parameterB0 = \<lparr>name = ''b'', handle = 0\<rparr>"

definition camera1 :: DepthCamera where
  "camera1 = camera0\<lparr>parameters := [''b'' \<mapsto> parameterB0]\<rparr>"

definition driver_no_fov :: Driver where
  "driver_no_fov = driver0\<lparr>getFieldOfView := (\<lambda>thetaMax. (False, thetaMax))\<rparr>"

definition driver_zero_fov :: Driver where
  "driver_zero_fov = driver0\<lparr>getFieldOfView := (\<lambda>thetaMax. (True, 0))\<rparr>"

definition driver_no_reset :: Driver where
  "driver_no_reset = driver0\<lparr>programmer_reset := (\<lambda>p. False)\<rparr>"

definition camera_xyzi :: DepthCamera where
  "camera_xyzi = snd (registerCallback CALLBACK_XYZI_POINT_CLOUD_FRAME (Some 7) camera0)"

text \<open>An event that hands a point-cloud frame, or the point-cloud stage, to a callback.\<close>

fun point_cloud_delivery :: "event \<Rightarrow> bool" where
  "point_cloud_delivery (Invoke c cam (PointCloudFrameRef f) type) = True"
| "point_cloud_delivery (Invoke c cam frame CALLBACK_XYZI_POINT_CLOUD_FRAME) = True"
| "point_cloud_delivery e = False"

section \<open>Properties\<close>

subsection \<open>Resizing\<close>

lemma length_resize: "length (resize n ps) = n"
  by (simp add: resize_def)

lemma resize_same: "length ps = n \<Longrightarrow> resize n ps = ps"
  by (simp add: resize_def)

subsection \<open>The pixel loops\<close>














text \<open>
  Beyond that range: in a frame 100000 wide, at pixel \<open>(0, 0)\<close>, \<^verbatim>\<open>x1\<close> is -50000 and
  \<^verbatim>\<open>x1*x1\<close> leaves the range of \<^verbatim>\<open>int\<close>.
\<close>

lemma project_overflow:
  "project (depthFrame0\<lparr>size_f := \<lparr>width = 100000, height = 1\<rparr>\<rparr>) fl 0 0 0 zeroPoint
     = Inl SignedOverflow"
  by (simp add: project_def Let_def depthFrame0_def to_int_def in_int_def INT_MIN_def INT_MAX_def)


subsection \<open>The conversion without a field of view\<close>

lemma convertToPointCloudFrame_no_fov:
  assumes "fst (fov 0) \<Longrightarrow> snd (fov 0) = 0"
  shows "convertToPointCloudFrame fov None p0 = Inr (False, p0)"
    and "convertToPointCloudFrame fov (Some d) p0 =
          Inr (False, Some (XYZI
            ((case dynamic_cast_XYZI p0 of None \<Rightarrow> new_XYZIPointCloudFrame | Some f \<Rightarrow> f)
               \<lparr>id_f := id_f d, timestamp := timestamp d,
                points := resize (width (size_f d) * height (size_f d))
                  (points (case dynamic_cast_XYZI p0 of None \<Rightarrow> new_XYZIPointCloudFrame | Some f \<Rightarrow> f))\<rparr>)))"
  using assms by (auto simp add: convertToPointCloudFrame_def Let_def)

text \<open>
  C10. When the depth frame is not null, the output handle holds a point-cloud frame
  \<open>f\<close> of the right class (the buffer is reused) and the field of view is not supplied
  or is zero, the conversion returns false and leaves in the handle the frame \<open>f\<close>
  with its id and timestamp overwritten by the depth frame's and its points resized to
  \<open>width * height\<close>. The frame left is \<open>f\<close> unchanged only if \<open>f\<close> had that id, that
  timestamp and that many points already.
\<close>

theorem convertToPointCloudFrame_failure_mutates_output:
  assumes "\<not> fst (fov 0) \<or> snd (fov 0) = 0"
  shows "\<exists>f'. convertToPointCloudFrame fov (Some d) (Some (XYZI f)) = Inr (False, Some (XYZI f'))
           \<and> f' = f\<lparr>id_f := id_f d, timestamp := timestamp d,
                    points := resize (width (size_f d) * height (size_f d)) (points f)\<rparr>
           \<and> id_f f' = id_f d \<and> timestamp f' = timestamp d
           \<and> length (points f') = width (size_f d) * height (size_f d)
           \<and> (f' = f \<longleftrightarrow>
                id_f f = id_f d \<and> timestamp f = timestamp d
                \<and> length (points f) = width (size_f d) * height (size_f d))"
proof -
  let ?n = "width (size_f d) * height (size_f d)"
  let ?f' = "f\<lparr>id_f := id_f d, timestamp := timestamp d, points := resize ?n (points f)\<rparr>"
  have "convertToPointCloudFrame fov (Some d) (Some (XYZI f)) = Inr (False, Some (XYZI ?f'))"
    using assms convertToPointCloudFrame_no_fov(2)[of fov d "Some (XYZI f)"] by auto
  moreover have "?f' = f \<longleftrightarrow>
      id_f f = id_f d \<and> timestamp f = timestamp d \<and> length (points f) = ?n"
  proof
    assume eq: "?f' = f"
    then have "id_f ?f' = id_f f" "timestamp ?f' = timestamp f" "length (points ?f') = length (points f)"
      by simp_all
    then show "id_f f = id_f d \<and> timestamp f = timestamp d \<and> length (points f) = ?n"
      by (simp add: length_resize)
  next
    assume "id_f f = id_f d \<and> timestamp f = timestamp d \<and> length (points f) = ?n"
    then show "?f' = f" by (simp add: resize_same)
  qed
  ultimately show ?thesis by (simp add: length_resize)
qed



theorem convertToPointCloudFrame_failure_mutates_output_witness:
  "\<not> fst (getFieldOfView driver_no_fov 0)
   \<and> convertToPointCloudFrame (getFieldOfView driver_no_fov) (Some depthFrame0)
        (Some (XYZI \<lparr>id_f = 1, timestamp = 2, points = []\<rparr>))
      = Inr (False, Some (XYZI \<lparr>id_f = 5, timestamp = 99,
                               points = [zeroPoint, zeroPoint, zeroPoint, zeroPoint]\<rparr>))"
proof -
  have a: "\<not> fst (getFieldOfView driver_no_fov 0)"
    by (simp add: driver_no_fov_def driver0_def)
  then have "\<not> fst (getFieldOfView driver_no_fov 0) \<or> snd (getFieldOfView driver_no_fov 0) = 0"
    by blast
  with convertToPointCloudFrame_failure_mutates_output[of "getFieldOfView driver_no_fov"
      depthFrame0 "\<lparr>id_f = 1, timestamp = 2, points = []\<rparr>"]
  show ?thesis using a
    by (auto simp add: depthFrame0_def resize_def numeral_eq_Suc)
qed

subsection \<open>One pass of the loop without a field of view\<close>

lemma callbackAndContinue_events:
  assumes "callbackAndContinue cam m t fr = Inr (evs, m', c)" "e \<in> set evs"
  shows "\<exists>cb. e = Invoke cb (id_cam cam) fr t"
  using assms
  by (auto simp add: callbackAndContinue_def Let_def split: if_splits option.splits)

lemma from_convertToPointCloudFrame_no_fov:
  assumes "fst (getFieldOfView drv 0) \<Longrightarrow> snd (getFieldOfView drv 0) = 0"
  shows "from_convertToPointCloudFrame drv bufs cam m d = [Call_convertToPointCloudFrame]"
proof (cases d)
  case None
  then show ?thesis
    using convertToPointCloudFrame_no_fov(1)[of "getFieldOfView drv" "pointCloudBuffers bufs"] assms
    by (simp add: from_convertToPointCloudFrame_def)
next
  case (Some df)
  then show ?thesis
    using convertToPointCloudFrame_no_fov(2)[of "getFieldOfView drv" df "pointCloudBuffers bufs"] assms
    by (simp add: from_convertToPointCloudFrame_def)
qed

lemma from_convertToDepthFrame_no_fov:
  assumes "fst (getFieldOfView drv 0) \<Longrightarrow> snd (getFieldOfView drv 0) = 0"
    and "e \<in> set (from_convertToDepthFrame drv bufs cam m f)"
  shows "\<not> point_cloud_delivery e"
proof -
  obtain ok d where c: "convertToDepthFrame drv f (depthFrameBuffers bufs) = (ok, d)"
    by (cases "convertToDepthFrame drv f (depthFrameBuffers bufs)")
  show ?thesis
  proof (cases "ok \<and> d \<noteq> None")
    case False
    with c assms(2) show ?thesis by (auto simp add: from_convertToDepthFrame_def split: if_splits)
  next
    case True
    then obtain df where d: "d = Some df" and ok: ok by auto
    show ?thesis
    proof (cases "callbackAndContinue cam m CALLBACK_DEPTH_FRAME (DepthFrameRef df)")
      case (Inl x)
      with c d ok assms(2) show ?thesis by (auto simp add: from_convertToDepthFrame_def)
    next
      case (Inr r)
      obtain evs m' cont where r: "r = (evs, m', cont)" by (cases r)
      from Inr r callbackAndContinue_events
      have evs: "\<And>e. e \<in> set evs \<Longrightarrow> \<not> point_cloud_delivery e" by fastforce
      from c d ok Inr r assms(2)
      have "e = Call_convertToDepthFrame \<or> e \<in> set evs
            \<or> e \<in> set (from_convertToPointCloudFrame drv bufs cam m' d)"
        by (auto simp add: from_convertToDepthFrame_def split: if_splits)
      then show ?thesis
        using evs from_convertToPointCloudFrame_no_fov[OF assms(1)] by auto
    qed
  qed
qed

lemma from_processRawFrame_no_fov:
  assumes "fst (getFieldOfView drv 0) \<Longrightarrow> snd (getFieldOfView drv 0) = 0"
    and "e \<in> set (from_processRawFrame drv bufs cam m f1)"
  shows "\<not> point_cloud_delivery e"
proof -
  obtain ok f where c: "processRawFrame drv f1 (rawFrameBuffers bufs) = (ok, f)"
    by (cases "processRawFrame drv f1 (rawFrameBuffers bufs)")
  show ?thesis
  proof (cases "ok \<and> f \<noteq> None")
    case False
    with c assms(2) show ?thesis by (auto simp add: from_processRawFrame_def split: if_splits)
  next
    case True
    then obtain rf where f: "f = Some rf" and ok: ok by auto
    show ?thesis
    proof (cases "callbackAndContinue cam m CALLBACK_RAW_FRAME_PROCESSED (RawFrameRef rf)")
      case (Inl x)
      with c f ok assms(2) show ?thesis by (auto simp add: from_processRawFrame_def)
    next
      case (Inr r)
      obtain evs m' cont where r: "r = (evs, m', cont)" by (cases r)
      from Inr r callbackAndContinue_events
      have evs: "\<And>e. e \<in> set evs \<Longrightarrow> \<not> point_cloud_delivery e" by fastforce
      from c f ok Inr r assms(2)
      have "e = Call_processRawFrame \<or> e \<in> set evs
            \<or> e \<in> set (from_convertToDepthFrame drv bufs cam m' f)"
        by (auto simp add: from_processRawFrame_def split: if_splits)
      then show ?thesis
        using evs from_convertToDepthFrame_no_fov[OF assms(1)] by auto
    qed
  qed
qed

lemma full_path_no_fov:
  assumes "fst (getFieldOfView drv 0) \<Longrightarrow> snd (getFieldOfView drv 0) = 0"
    and "e \<in> set (full_path drv bufs cam m)"
  shows "\<not> point_cloud_delivery e"
proof -
  obtain ok f1 where c: "captureRawUnprocessedFrame drv None = (ok, f1)"
    by (cases "captureRawUnprocessedFrame drv None")
  show ?thesis
  proof (cases "ok \<and> f1 \<noteq> None")
    case False
    with c assms(2) show ?thesis by (auto simp add: full_path_def split: if_splits)
  next
    case True
    then obtain rf where f: "f1 = Some rf" and ok: ok by auto
    show ?thesis
    proof (cases "callbackAndContinue cam m CALLBACK_RAW_FRAME_UNPROCESSED (RawFrameRef rf)")
      case (Inl x)
      with c f ok assms(2) show ?thesis by (auto simp add: full_path_def)
    next
      case (Inr r)
      obtain evs m' cont where r: "r = (evs, m', cont)" by (cases r)
      from Inr r callbackAndContinue_events
      have evs: "\<And>e. e \<in> set evs \<Longrightarrow> \<not> point_cloud_delivery e" by fastforce
      from c f ok Inr r assms(2)
      have "e = Call_captureRawUnprocessedFrame \<or> e \<in> set evs
            \<or> e \<in> set (from_processRawFrame drv bufs cam m' f1)"
        by (auto simp add: full_path_def split: if_splits)
      then show ?thesis
        using evs from_processRawFrame_no_fov[OF assms(1)] by auto
    qed
  qed
qed

lemma fast_path_no_point_cloud:
  assumes "e \<in> set (fast_path drv bufs cam)"
  shows "\<not> point_cloud_delivery e"
  using assms
  by (auto simp add: fast_path_def split: prod.splits if_splits option.splits)

text \<open>
  C9. When the camera's field-of-view query fails or gives the angle zero, the
  conversion returns false whatever the depth frame and the output handle are, and a
  pass of the capture loop hands no point-cloud frame to a callback and calls no
  callback for the point-cloud stage.
\<close>

theorem no_field_of_view_no_point_cloud:
  assumes "\<not> fst (getFieldOfView drv 0) \<or> snd (getFieldOfView drv 0) = 0"
  shows "(\<exists>p. convertToPointCloudFrame (getFieldOfView drv) d p0 = Inr (False, p))
       \<and> (\<forall>c i pf t. Invoke c i (PointCloudFrameRef pf) t \<notin> set (captureLoop_body drv bufs cam))
       \<and> (\<forall>c i fr. Invoke c i fr CALLBACK_XYZI_POINT_CLOUD_FRAME \<notin> set (captureLoop_body drv bufs cam))"
proof -
  from assms have a: "fst (getFieldOfView drv 0) \<Longrightarrow> snd (getFieldOfView drv 0) = 0" by blast
  have conv: "\<exists>p. convertToPointCloudFrame (getFieldOfView drv) d p0 = Inr (False, p)"
    using convertToPointCloudFrame_no_fov[where fov="getFieldOfView drv" and ?p0.0=p0] a
    by (cases d) auto
  have ev: "\<forall>e \<in> set (captureLoop_body drv bufs cam). \<not> point_cloud_delivery e"
    using full_path_no_fov[OF a] fast_path_no_point_cloud
    by (auto simp add: captureLoop_body_def Let_def)
  have "\<forall>c i pf t. Invoke c i (PointCloudFrameRef pf) t \<notin> set (captureLoop_body drv bufs cam)"
    using ev by fastforce
  moreover have "\<forall>c i fr. Invoke c i fr CALLBACK_XYZI_POINT_CLOUD_FRAME \<notin> set (captureLoop_body drv bufs cam)"
  proof (intro allI notI)
    fix c i fr
    assume "Invoke c i fr CALLBACK_XYZI_POINT_CLOUD_FRAME \<in> set (captureLoop_body drv bufs cam)"
    with ev have "\<not> point_cloud_delivery (Invoke c i fr CALLBACK_XYZI_POINT_CLOUD_FRAME)" by blast
    then show False by (cases fr) simp_all
  qed
  ultimately show ?thesis using conv by blast
qed



theorem no_field_of_view_no_point_cloud_witness:
  "\<not> fst (getFieldOfView driver_no_fov 0)
   \<and> (\<exists>p. convertToPointCloudFrame (getFieldOfView driver_no_fov) (Some depthFrame0) None
            = Inr (False, p))
   \<and> (\<forall>c i pf t. Invoke c i (PointCloudFrameRef pf) t
                    \<notin> set (captureLoop_body driver_no_fov buffers0 camera_xyzi))
   \<and> (\<forall>c i fr. Invoke c i fr CALLBACK_XYZI_POINT_CLOUD_FRAME
                    \<notin> set (captureLoop_body driver_no_fov buffers0 camera_xyzi))
   \<and> snd (getFieldOfView driver_zero_fov 0) = 0
   \<and> (\<exists>p. convertToPointCloudFrame (getFieldOfView driver_zero_fov) (Some depthFrame0) None
            = Inr (False, p))
   \<and> (\<forall>c i pf t. Invoke c i (PointCloudFrameRef pf) t
                    \<notin> set (captureLoop_body driver_zero_fov buffers0 camera_xyzi))
   \<and> (\<forall>c i fr. Invoke c i fr CALLBACK_XYZI_POINT_CLOUD_FRAME
                    \<notin> set (captureLoop_body driver_zero_fov buffers0 camera_xyzi))"
proof -
  have a: "\<not> fst (getFieldOfView driver_no_fov 0)"
    by (simp add: driver_no_fov_def driver0_def)
  have b: "snd (getFieldOfView driver_zero_fov 0) = 0"
    by (simp add: driver_zero_fov_def driver0_def)
  from a have a': "\<not> fst (getFieldOfView driver_no_fov 0) \<or> snd (getFieldOfView driver_no_fov 0) = 0"
    by blast
  from b have b': "\<not> fst (getFieldOfView driver_zero_fov 0) \<or> snd (getFieldOfView driver_zero_fov 0) = 0"
    by blast
  show ?thesis
    using a b
      no_field_of_view_no_point_cloud[OF a', of "Some depthFrame0" None buffers0 camera_xyzi]
      no_field_of_view_no_point_cloud[OF b', of "Some depthFrame0" None buffers0 camera_xyzi]
    by blast
qed

subsection \<open>The session\<close>

text \<open>
  C8. On a camera that holds a programmer, \<^verbatim>\<open>reset()\<close> stops the camera and asks the
  programmer to reset the device. If that fails, \<^verbatim>\<open>reset()\<close> returns false and the
  programmer and streamer handles are as before; if it succeeds, \<^verbatim>\<open>reset()\<close> returns
  true and both handles are null.
\<close>

theorem reset_releases_on_success_only:
  assumes "programmer cam = Some p"
  shows "(\<not> programmer_reset drv p \<longrightarrow>
            reset drv cam = Inr (False, cam\<lparr>running := False\<rparr>)
            \<and> programmer (cam\<lparr>running := False\<rparr>) = programmer cam
            \<and> streamer (cam\<lparr>running := False\<rparr>) = streamer cam)
       \<and> (programmer_reset drv p \<longrightarrow>
            reset drv cam = Inr (True, cam\<lparr>running := False, programmer := None, streamer := None\<rparr>))"
  using assms by (simp add: reset_def stop_def)

theorem reset_releases_on_success_only_witness:
  "programmer camera0 = Some 1
   \<and> \<not> programmer_reset driver_no_reset 1
   \<and> reset driver_no_reset camera0 = Inr (False, camera0\<lparr>running := False\<rparr>)
   \<and> programmer (camera0\<lparr>running := False\<rparr>) = Some 1
   \<and> streamer (camera0\<lparr>running := False\<rparr>) = Some 2
   \<and> programmer_reset driver0 1
   \<and> reset driver0 camera0
        = Inr (True, camera0\<lparr>running := False, programmer := None, streamer := None\<rparr>)"
proof -
  have p: "programmer camera0 = Some 1" by (simp add: camera0_def)
  have s: "streamer camera0 = Some 2" by (simp add: camera0_def)
  have n: "\<not> programmer_reset driver_no_reset 1" by (simp add: driver_no_reset_def driver0_def)
  have y: "programmer_reset driver0 1" by (simp add: driver0_def)
  from reset_releases_on_success_only[OF p, of driver_no_reset] n
       reset_releases_on_success_only[OF p, of driver0] y p s
  show ?thesis by simp
qed



subsection \<open>Parameters\<close>

lemma addParameters_loop_prefix:
  "\<exists>pre post. params = pre @ post
      \<and> distinct (map name pre)
      \<and> (\<forall>r \<in> set pre. m (name r) = None)
      \<and> snd (addParameters_loop params m) = m ++ map_of (map (\<lambda>r. (name r, r)) pre)
      \<and> fst (addParameters_loop params m) = (post = [])
      \<and> (post \<noteq> [] \<longrightarrow> m (name (hd post)) \<noteq> None \<or> name (hd post) \<in> name ` set pre)"
proof (induction params arbitrary: m)
  case Nil
  then show ?case by simp
next
  case (Cons p ps)
  show ?case
  proof (cases "m (name p) = None")
    case False
    then have "p # ps = [] @ (p # ps) \<and> distinct (map name [])
        \<and> (\<forall>r \<in> set []. m (name r) = None)
        \<and> snd (addParameters_loop (p # ps) m) = m ++ map_of (map (\<lambda>r. (name r, r)) [])
        \<and> fst (addParameters_loop (p # ps) m) = ((p # ps) = [])
        \<and> ((p # ps) \<noteq> [] \<longrightarrow> m (name (hd (p # ps))) \<noteq> None \<or> name (hd (p # ps)) \<in> name ` set [])"
      by auto
    then show ?thesis by blast
  next
    case True
    let ?m1 = "m(name p \<mapsto> p)"
    from Cons.IH[of ?m1]
    obtain pre post where ps: "ps = pre @ post"
      and dist: "distinct (map name pre)"
      and fresh: "\<forall>r \<in> set pre. ?m1 (name r) = None"
      and res: "snd (addParameters_loop ps ?m1) = ?m1 ++ map_of (map (\<lambda>r. (name r, r)) pre)"
      and ok: "fst (addParameters_loop ps ?m1) = (post = [])"
      and coll: "post \<noteq> [] \<longrightarrow> ?m1 (name (hd post)) \<noteq> None \<or> name (hd post) \<in> name ` set pre"
      by blast
    from fresh have notp: "\<forall>r \<in> set pre. name r \<noteq> name p"
      by (auto split: if_splits)
    from fresh have fresh': "\<forall>r \<in> set (p # pre). m (name r) = None"
      using True by (auto split: if_splits)
    from notp dist have dist': "distinct (map name (p # pre))" by auto
    have nodom: "name p \<notin> dom (map_of (map (\<lambda>r. (name r, r)) pre))"
      using notp by (auto simp add: dom_map_of_conv_image_fst image_iff)
    have res': "snd (addParameters_loop (p # ps) m) = m ++ map_of (map (\<lambda>r. (name r, r)) (p # pre))"
    proof -
      have "?m1 ++ map_of (map (\<lambda>r. (name r, r)) pre)
            = (m ++ map_of (map (\<lambda>r. (name r, r)) pre))(name p \<mapsto> p)"
        using nodom by (auto simp add: map_add_def fun_eq_iff split: option.splits)
      then show ?thesis using True res by simp
    qed
    have ok': "fst (addParameters_loop (p # ps) m) = (post = [])"
      using True ok by simp
    have coll': "post \<noteq> [] \<longrightarrow> m (name (hd post)) \<noteq> None \<or> name (hd post) \<in> name ` set (p # pre)"
      using coll by (auto split: if_splits)
    from ps dist' fresh' res' ok' coll' have "p # ps = (p # pre) @ post
        \<and> distinct (map name (p # pre))
        \<and> (\<forall>r \<in> set (p # pre). m (name r) = None)
        \<and> snd (addParameters_loop (p # ps) m) = m ++ map_of (map (\<lambda>r. (name r, r)) (p # pre))
        \<and> fst (addParameters_loop (p # ps) m) = (post = [])
        \<and> (post \<noteq> [] \<longrightarrow> m (name (hd post)) \<noteq> None \<or> name (hd post) \<in> name ` set (p # pre))"
      by simp
    then show ?thesis by blast
  qed
qed

lemma addParameters_loop_collision:
  assumes "p \<in> set params" "m (name p) \<noteq> None"
  shows "fst (addParameters_loop params m) = False"
  using assms
proof (induction params arbitrary: m)
  case Nil
  then show ?case by simp
next
  case (Cons q qs)
  show ?case
  proof (cases "m (name q) = None")
    case False
    then show ?thesis by auto
  next
    case True
    with Cons.prems have "p \<in> set qs" by auto
    moreover from Cons.prems have "(m(name q \<mapsto> q)) (name p) \<noteq> None" by simp
    ultimately show ?thesis using Cons.IH True by simp
  qed
qed

text \<open>
  C3, as the code has it. When a parameter of the batch has the name of an entry of
  the parameter map, \<^verbatim>\<open>_addParameters\<close> returns false and changes or removes no entry
  that was in the map; but the parameters of the batch before the first colliding one
  (colliding with an entry of the map or with an earlier parameter of the batch) have
  been inserted, and nothing else has.
\<close>

theorem addParameters_collision:
  assumes "p \<in> set params" "parameters cam (name p) \<noteq> None"
  shows "\<exists>pre q post. params = pre @ q # post
      \<and> distinct (map name pre)
      \<and> (\<forall>r \<in> set pre. parameters cam (name r) = None)
      \<and> (parameters cam (name q) \<noteq> None \<or> name q \<in> name ` set pre)
      \<and> addParameters params cam
          = (False, cam\<lparr>parameters := parameters cam ++ map_of (map (\<lambda>r. (name r, r)) pre)\<rparr>)
      \<and> (\<forall>k \<in> dom (parameters cam).
            (parameters cam ++ map_of (map (\<lambda>r. (name r, r)) pre)) k = parameters cam k)
      \<and> (\<forall>r \<in> set pre.
            (parameters cam ++ map_of (map (\<lambda>r. (name r, r)) pre)) (name r) = Some r)"
proof -
  let ?m = "parameters cam"
  from addParameters_loop_prefix[of params ?m]
  obtain pre post where ps: "params = pre @ post"
    and dist: "distinct (map name pre)"
    and fresh: "\<forall>r \<in> set pre. ?m (name r) = None"
    and res: "snd (addParameters_loop params ?m) = ?m ++ map_of (map (\<lambda>r. (name r, r)) pre)"
    and ok: "fst (addParameters_loop params ?m) = (post = [])"
    and coll: "post \<noteq> [] \<longrightarrow> ?m (name (hd post)) \<noteq> None \<or> name (hd post) \<in> name ` set pre"
    by blast
  from addParameters_loop_collision[of p params ?m] assms ok have "post \<noteq> []" by simp
  then obtain q post' where post: "post = q # post'" by (cases post) auto
  have run: "addParameters params cam
      = (False, cam\<lparr>parameters := ?m ++ map_of (map (\<lambda>r. (name r, r)) pre)\<rparr>)"
    using res ok post by (cases "addParameters_loop params ?m") (simp add: addParameters_def)
  have keep: "\<forall>k \<in> dom ?m. (?m ++ map_of (map (\<lambda>r. (name r, r)) pre)) k = ?m k"
  proof
    fix k assume "k \<in> dom ?m"
    with fresh have "k \<notin> name ` set pre" by auto
    then have "map_of (map (\<lambda>r. (name r, r)) pre) k = None"
      by (simp add: map_of_eq_None_iff image_image)
    then show "(?m ++ map_of (map (\<lambda>r. (name r, r)) pre)) k = ?m k"
      by (simp add: map_add_def)
  qed
  have ins: "\<forall>r \<in> set pre. (?m ++ map_of (map (\<lambda>r. (name r, r)) pre)) (name r) = Some r"
  proof
    fix r assume r: "r \<in> set pre"
    have "distinct (map fst (map (\<lambda>r. (name r, r)) pre))"
      using dist by (simp add: comp_def)
    moreover have "(name r, r) \<in> set (map (\<lambda>r. (name r, r)) pre)" using r by auto
    ultimately have "map_of (map (\<lambda>r. (name r, r)) pre) (name r) = Some r"
      by (rule map_of_is_SomeI)
    then show "(?m ++ map_of (map (\<lambda>r. (name r, r)) pre)) (name r) = Some r"
      by (simp add: map_add_def)
  qed
  from ps post dist fresh coll run keep ins show ?thesis by auto
qed

text \<open>
  C3 as stated fails on the batch \<open>a, b\<close> and a map that holds \<open>b\<close>: the call returns
  false and \<open>a\<close> has been inserted.
\<close>

theorem addParameters_partial_insert:
  "parameters camera1 (name parameterB) \<noteq> None
   \<and> fst (addParameters [parameterA, parameterB] camera1) = False
   \<and> parameters camera1 ''a'' = None
   \<and> parameters (snd (addParameters [parameterA, parameterB] camera1)) ''a'' = Some parameterA
   \<and> parameters (snd (addParameters [parameterA, parameterB] camera1)) \<noteq> parameters camera1"
proof -
  have a: "parameters camera1 ''a'' = None"
    by (simp add: camera1_def camera0_def)
  have b: "parameters (snd (addParameters [parameterA, parameterB] camera1)) ''a'' = Some parameterA"
    by (simp add: addParameters_def camera1_def camera0_def parameterA_def parameterB_def)
  from a b have "parameters (snd (addParameters [parameterA, parameterB] camera1)) \<noteq> parameters camera1"
    by (metis option.distinct(1))
  moreover have "parameters camera1 (name parameterB) \<noteq> None"
    by (simp add: camera1_def camera0_def parameterB_def)
  moreover have "fst (addParameters [parameterA, parameterB] camera1) = False"
    by (simp add: addParameters_def camera1_def camera0_def parameterA_def parameterB_def)
  ultimately show ?thesis using a b by blast
qed

theorem addParameters_collision_witness:
  "parameterB \<in> set [parameterA, parameterB]
   \<and> parameters camera1 (name parameterB) \<noteq> None
   \<and> fst (addParameters [parameterA, parameterB] camera1) = False
   \<and> parameters (snd (addParameters [parameterA, parameterB] camera1)) ''b'' = Some parameterB0"
proof -
  have m: "parameterB \<in> set [parameterA, parameterB]" by simp
  have c: "parameters camera1 (name parameterB) \<noteq> None"
    by (simp add: camera1_def camera0_def parameterB_def)
  have b: "parameters camera1 ''b'' = Some parameterB0"
    by (simp add: camera1_def camera0_def)
  from addParameters_collision[of parameterB "[parameterA, parameterB]" camera1] m c
  obtain pre where run: "addParameters [parameterA, parameterB] camera1
          = (False, camera1\<lparr>parameters := parameters camera1 ++ map_of (map (\<lambda>r. (name r, r)) pre)\<rparr>)"
    and keep: "\<forall>k \<in> dom (parameters camera1).
            (parameters camera1 ++ map_of (map (\<lambda>r. (name r, r)) pre)) k = parameters camera1 k"
    by blast
  from b have "''b'' \<in> dom (parameters camera1)" by blast
  with keep b have "(parameters camera1 ++ map_of (map (\<lambda>r. (name r, r)) pre)) ''b'' = Some parameterB0"
    by simp
  with run m c show ?thesis by simp
qed



subsection \<open>The callback table and the dispatch, run\<close>

text \<open>
  What \<^verbatim>\<open>_callbackAndContinue\<close> does for a stage of the table: it calls the slot's
  callback when the slot is not empty and the inclusive or of the mask and the
  enumerator is not zero, and it takes the bits of the enumerator out of the mask.
\<close>

lemma callbackAndContinue_result:
  assumes "enumerator type < length (callback cam)"
  shows "callbackAndContinue cam m type fr =
           Inr (if (m OR of_nat (enumerator type)) = 0 then []
                else (case callback cam ! enumerator type of
                        None \<Rightarrow> []
                      | Some c \<Rightarrow> [Invoke c (id_cam cam) fr type]),
                m AND NOT (of_nat (enumerator type)),
                m AND NOT (of_nat (enumerator type)) \<noteq> 0)"
  using assms by (simp add: callbackAndContinue_def Let_def split: option.splits)

text \<open>
  For every stage, \<^verbatim>\<open>registerCallback\<close> sets the bit \<open>1 << type\<close>, and
  \<^verbatim>\<open>_callbackAndContinue\<close> on a pending mask that is exactly this bit leaves it set
  and returns true.
\<close>

lemma callbackAndContinue_own_bit_stays:
  assumes "enumerator type < length (callback cam)"
  shows "\<exists>evs. callbackAndContinue cam (push_bit (enumerator type) 1) type fr
           = Inr (evs, push_bit (enumerator type) 1, True)"
  using assms
  by (cases type) (simp_all add: callbackAndContinue_result split: option.splits)

lemma registerCallback_sets_bit:
  assumes "type \<noteq> CALLBACK_TYPE_COUNT"
  shows "fst (registerCallback type f cam)"
    and "bit (callBackTypesRegistered (snd (registerCallback type f cam))) (enumerator type)"
  using assms by (cases type; simp add: registerCallback_def bit_simps)+


text \<open>\<^verbatim>\<open>clearCallback\<close> empties the slots, twice as once, and leaves the mask.\<close>

lemma nth_list_update_total: "xs[i := x] ! j = (if i = j \<and> j < length xs then x else xs ! j)"
  by (cases "i < length xs") (auto simp add: nth_list_update list_update_beyond)

lemma clearCallback_idempotent: "clearCallback (clearCallback cam) = clearCallback cam"
proof -
  have "\<And>cb :: CallbackType list.
      cb[0 := None, Suc 0 := None, Suc (Suc 0) := None, Suc (Suc (Suc 0)) := None,
         0 := None, Suc 0 := None, Suc (Suc 0) := None, Suc (Suc (Suc 0)) := None]
      = cb[0 := None, Suc 0 := None, Suc (Suc 0) := None, Suc (Suc (Suc 0)) := None]"
    by (rule nth_equalityI) (simp_all add: nth_list_update_total)
  then show ?thesis
    by (simp add: clearCallback_def numeral_eq_Suc upt_rec)
qed

lemma clearCallback_mask: "callBackTypesRegistered (clearCallback cam) = callBackTypesRegistered cam"
  by (simp add: clearCallback_def)

lemma clearCallback_slots:
  "length (callback cam) = 4 \<Longrightarrow> callback (clearCallback cam) = [None, None, None, None]"
  by (cases "callback cam" rule: list.exhaust; simp add: clearCallback_def numeral_eq_Suc upt_rec)
     (auto simp add: length_Suc_conv)

text \<open>
  C1, on the code. With a callback registered for \<^verbatim>\<open>CALLBACK_RAW_FRAME_PROCESSED\<close>
  (enumerator 1, subscription bit \<open>1 << 1\<close>) and the pending mask 4, which does not hold
  that bit, \<^verbatim>\<open>_callbackAndContinue\<close> calls the callback all the same: \<open>4 | 1\<close> is not
  zero.
\<close>

theorem callbackAndContinue_calls_stage_not_pending:
  "callbackAndContinue (snd (registerCallback CALLBACK_RAW_FRAME_PROCESSED (Some 7) camera0)) 4
       CALLBACK_RAW_FRAME_PROCESSED (RawFrameRef rawFrame0)
     = Inr ([Invoke 7 ''camera'' (RawFrameRef rawFrame0) CALLBACK_RAW_FRAME_PROCESSED], 4, True)
   \<and> \<not> bit (4 :: 32 word) (enumerator CALLBACK_RAW_FRAME_PROCESSED)"
  by (simp add: callbackAndContinue_def registerCallback_def camera0_def)

text \<open>
  C2, on the code. On a camera with an empty subscription mask and no callback in
  any slot, whose hardware starts, \<^verbatim>\<open>start()\<close> returns true, sets \<^verbatim>\<open>_running\<close> and makes
  the capture thread, which sets \<^verbatim>\<open>_threadActive\<close> on entry.
\<close>

theorem start_without_callback_succeeds:
  "callBackTypesRegistered camera0 = 0
   \<and> callback camera0 = [None, None, None, None]
   \<and> start driver0 camera0 = (True, camera0\<lparr>running := True, captureThread := True\<rparr>)
   \<and> threadActive (captureThreadWrapper_enter (snd (start driver0 camera0)))"
  by (simp add: start_def driver0_def camera0_def array_as_condition_def numeral_eq_Suc
      captureThreadWrapper_enter_def)

text \<open>
  C4, on the code. After \<^verbatim>\<open>registerCallback(CALLBACK_DEPTH_FRAME, f)\<close> the mask is 4
  and slot 2 holds \<open>f\<close>; after \<^verbatim>\<open>clearCallback()\<close> every slot is empty and the mask is
  still 4.
\<close>

theorem clearCallback_keeps_mask:
  "registerCallback CALLBACK_DEPTH_FRAME (Some 7) camera0
     = (True, camera0\<lparr>callBackTypesRegistered := 4, callback := [None, None, Some 7, None]\<rparr>)
   \<and> clearCallback (snd (registerCallback CALLBACK_DEPTH_FRAME (Some 7) camera0))
     = camera0\<lparr>callBackTypesRegistered := 4\<rparr>
   \<and> callback (camera0\<lparr>callBackTypesRegistered := 4\<rparr>) = [None, None, None, None]"
  by (simp add: clearCallback_def registerCallback_def camera0_def numeral_eq_Suc upt_rec)

text \<open>
  C5, on the code. \<^verbatim>\<open>registerCallback\<close> sets bit \<open>1 << type\<close>; \<^verbatim>\<open>_callbackAndContinue\<close>
  clears the bits of \<open>type\<close> itself. For \<^verbatim>\<open>CALLBACK_RAW_FRAME_UNPROCESSED\<close> (0) and the
  pending mask 1 it clears nothing and returns true; for \<^verbatim>\<open>CALLBACK_DEPTH_FRAME\<close> (2,
  bit 4) and the pending mask 6 it clears bit 2, the bit of the stage before, and
  leaves 4.
\<close>

theorem callbackAndContinue_keeps_own_bit:
  "callBackTypesRegistered (snd (registerCallback CALLBACK_RAW_FRAME_UNPROCESSED (Some 7) camera0)) = 1
   \<and> callbackAndContinue (snd (registerCallback CALLBACK_RAW_FRAME_UNPROCESSED (Some 7) camera0)) 1
        CALLBACK_RAW_FRAME_UNPROCESSED (RawFrameRef rawFrame0)
      = Inr ([Invoke 7 ''camera'' (RawFrameRef rawFrame0) CALLBACK_RAW_FRAME_UNPROCESSED], 1, True)
   \<and> callBackTypesRegistered (snd (registerCallback CALLBACK_DEPTH_FRAME (Some 7) camera0)) = 4
   \<and> callbackAndContinue (snd (registerCallback CALLBACK_DEPTH_FRAME (Some 7) camera0)) 6
        CALLBACK_DEPTH_FRAME (DepthFrameRef depthFrame0)
      = Inr ([Invoke 7 ''camera'' (DepthFrameRef depthFrame0) CALLBACK_DEPTH_FRAME], 4, True)"
  by (simp add: callbackAndContinue_def registerCallback_def camera0_def)

text \<open>
  C6, on the code. With a callback for \<^verbatim>\<open>CALLBACK_RAW_FRAME_UNPROCESSED\<close> only, the mask
  is 1, which is neither 0 nor the enumerator 0: the pass takes the full path and
  calls \<^verbatim>\<open>_processRawFrame\<close>. With no callback at all the pass takes the fast path
  and, the capture having succeeded, calls the empty slot.
\<close>

theorem raw_unprocessed_only_takes_full_path:
  "callBackTypesRegistered (snd (registerCallback CALLBACK_RAW_FRAME_UNPROCESSED (Some 7) camera0)) = 1
   \<and> captureLoop_body driver0 buffers0
        (snd (registerCallback CALLBACK_RAW_FRAME_UNPROCESSED (Some 7) camera0))
      = [Call_captureRawUnprocessedFrame,
         Invoke 7 ''camera'' (RawFrameRef rawFrame0) CALLBACK_RAW_FRAME_UNPROCESSED,
         Call_processRawFrame]
   \<and> callBackTypesRegistered camera0 = 0
   \<and> callback camera0 ! enumerator CALLBACK_RAW_FRAME_UNPROCESSED = None
   \<and> captureLoop_body driver0 buffers0 camera0
      = [Call_captureRawUnprocessedFrame, Raise BadFunctionCall]"
  by (simp add: captureLoop_body_def full_path_def fast_path_def from_processRawFrame_def
      callbackAndContinue_def registerCallback_def camera0_def driver0_def buffers0_def
      array_as_condition_def)


end
